theory Spec2Isabelle
  imports Main
begin

section \<open>JavaScript values used by the stores\<close>

text \<open>
  The stores compare filters with \<^verbatim>\<open>JSON.stringify\<close>. A filter is a plain key/value
  object; the declaration of \<^verbatim>\<open>GetLimitsParams\<close> is not part of the sources, so a
  filter is modelled as the ordered list of its own properties (JavaScript keeps the
  insertion order of string keys that are not array indices), each holding a primitive
  value or \<^verbatim>\<open>undefined\<close>. Characters stand for UTF-16 code units below 256, and
  \<open>JNum i\<close> for a Number with the integer value \<open>i\<close>, of a size that JavaScript prints
  in plain digits (below \<^verbatim>\<open>1e21\<close>).
\<close>

datatype jsprim = JNull | JBool bool | JNum int | JStr string

text \<open>A property value: \<open>None\<close> is \<^verbatim>\<open>undefined\<close>.\<close>

type_synonym jsobject = "(string \<times> jsprim option) list"

text \<open>Modelled from the spec: the type declaration \<^verbatim>\<open>GetLimitsParams\<close> is missing
  (section 6: filter objects are plain key/value structures).\<close>

type_synonym GetLimitsParams = jsobject

subsection \<open>Number to string, for integers\<close>

definition digit_char :: "nat \<Rightarrow> char" where
  "digit_char d = char_of (48 + d)"

fun decimal :: "nat \<Rightarrow> string" where
  "decimal n = (if n < 10 then [digit_char n] else decimal (n div 10) @ [digit_char (n mod 10)])"

declare decimal.simps [simp del]

definition NumberToString :: "int \<Rightarrow> string" where
  "NumberToString i = (if i < 0 then CHR ''-'' # decimal (nat (- i)) else decimal (nat i))"

subsection \<open>\<^verbatim>\<open>JSON.stringify\<close>\<close>

definition hex_digit :: "nat \<Rightarrow> char" where
  "hex_digit d = (if d < 10 then char_of (48 + d) else char_of (87 + d))"

text \<open>QuoteJSONString of ECMA-262, one code unit at a time.\<close>

definition QuoteJSONChar :: "char \<Rightarrow> string" where
  "QuoteJSONChar c =
     (if c = CHR 0x22 then [CHR 0x5C, CHR 0x22]
      else if c = CHR 0x5C then [CHR 0x5C, CHR 0x5C]
      else if c = CHR 0x08 then [CHR 0x5C, CHR ''b'']
      else if c = CHR 0x09 then [CHR 0x5C, CHR ''t'']
      else if c = CHR 0x0A then [CHR 0x5C, CHR ''n'']
      else if c = CHR 0x0C then [CHR 0x5C, CHR ''f'']
      else if c = CHR 0x0D then [CHR 0x5C, CHR ''r'']
      else if (of_char c :: nat) < 32 then
        [CHR 0x5C, CHR ''u'', CHR ''0'', CHR ''0'',
         hex_digit (of_char c div 16), hex_digit (of_char c mod 16)]
      else [c])"

definition QuoteJSONString :: "string \<Rightarrow> string" where
  "QuoteJSONString s = CHR 0x22 # concat (map QuoteJSONChar s) @ [CHR 0x22]"

fun SerializeJSONPrim :: "jsprim \<Rightarrow> string" where
  "SerializeJSONPrim JNull = ''null''"
| "SerializeJSONPrim (JBool b) = (if b then ''true'' else ''false'')"
| "SerializeJSONPrim (JNum i) = NumberToString i"
| "SerializeJSONPrim (JStr s) = QuoteJSONString s"

text \<open>SerializeJSONObject: a property whose value is \<^verbatim>\<open>undefined\<close> is left out; the
  others are written in property order, separated by commas.\<close>

fun SerializeJSONProperties :: "jsobject \<Rightarrow> string list" where
  "SerializeJSONProperties [] = []"
| "SerializeJSONProperties ((k, None) # ps) = SerializeJSONProperties ps"
| "SerializeJSONProperties ((k, Some v) # ps) =
     (QuoteJSONString k @ '':'' @ SerializeJSONPrim v) # SerializeJSONProperties ps"

fun join_comma :: "string list \<Rightarrow> string" where
  "join_comma [] = []"
| "join_comma [x] = x"
| "join_comma (x # y # ys) = x @ '','' @ join_comma (y # ys)"

definition SerializeJSONObject :: "jsobject \<Rightarrow> string" where
  "SerializeJSONObject ps = ''{'' @ join_comma (SerializeJSONProperties ps) @ ''}''"

text \<open>\<^verbatim>\<open>JSON.stringify(x)\<close> for an optional filter: \<^verbatim>\<open>undefined\<close> gives
  \<^verbatim>\<open>undefined\<close> (\<open>None\<close>), an object gives its text.\<close>

fun JSON_stringify :: "jsobject option \<Rightarrow> string option" where
  "JSON_stringify None = None"
| "JSON_stringify (Some ps) = Some (SerializeJSONObject ps)"

section \<open>The limits store\<close>

text \<open>Modelled from the spec: the type declaration \<^verbatim>\<open>Limit\<close> is missing (section 3:
  identifier, category reference, amount ceiling, period start and end, creation
  timestamp).\<close>

record Limit =
  limit_id :: string
  limit_category_id :: string
  limit_amount :: string
  limit_period_start :: string
  limit_period_end :: string
  limit_created_at :: string

record LimitUpdateData =
  amount :: string
  period_start :: string
  period_end :: string

record LimitCreateData = LimitUpdateData +
  category_id :: string

text \<open>A rejected promise or a thrown value.\<close>

datatype error = Error string

text \<open>The requests of \<^verbatim>\<open>useLimitsRequests\<close>, as they are observed on the network.\<close>

datatype request =
    GetLimits "GetLimitsParams option"
  | AddLimit LimitCreateData
  | UpdateLimit string LimitUpdateData
  | RemoveLimit string

text \<open>
  The refs of the store, and two traces of what the store does outside itself:
  \<open>requests\<close> lists the calls made to the remote endpoint, \<open>console\<close> the lines
  written with \<^verbatim>\<open>console.error\<close>.
\<close>

record LimitsStore =
  limits :: "Limit list"
  loading :: bool
  isLoaded :: bool
  currentFilter :: "GetLimitsParams option"
  drawerVisible :: bool
  editingLimit :: "Limit option"
  requests :: "request list"
  console :: "(string \<times> error) list"

definition initialStore :: LimitsStore where
  "initialStore = \<lparr>limits = [], loading = False, isLoaded = False, currentFilter = None,
     drawerVisible = False, editingLimit = None, requests = [], console = []\<rparr>"

text \<open>
  The local constant \<^verbatim>\<open>filterChanged\<close> of \<^verbatim>\<open>loadLimits\<close> compares the two
  serialisations with \<^verbatim>\<open>!==\<close>.

  \<^verbatim>\<open>loadLimits\<close> runs synchronously up to its only \<^verbatim>\<open>await\<close>. \<open>loadLimits_begin\<close> is
  that first part: it returns \<open>False\<close> when the call has returned already, and
  \<open>True\<close> when the request has been sent and the call is suspended.
\<close>

definition filterChanged :: "GetLimitsParams option \<Rightarrow> GetLimitsParams option \<Rightarrow> bool" where
  "filterChanged current params = (JSON_stringify current \<noteq> JSON_stringify params)"

definition loadLimits_begin ::
  "GetLimitsParams option \<Rightarrow> bool \<Rightarrow> LimitsStore \<Rightarrow> bool \<times> LimitsStore" where
  "loadLimits_begin params force s =
     (if \<not> force \<and> isLoaded s \<and> \<not> filterChanged (currentFilter s) params then (False, s)
      else if loading s then (False, s)
      else (True, s\<lparr>loading := True, currentFilter := params,
                     requests := requests s @ [GetLimits params]\<rparr>))"

text \<open>The rest of \<^verbatim>\<open>loadLimits\<close>, run when the request is answered: the assignments
  after the \<^verbatim>\<open>await\<close>, or the \<^verbatim>\<open>catch\<close> block, and then the \<^verbatim>\<open>finally\<close> block. The
  \<^verbatim>\<open>catch\<close> block does not throw again, so the call returns normally.\<close>

definition loadLimits_resume ::
  "error + Limit list \<Rightarrow> LimitsStore \<Rightarrow> (error + unit) \<times> LimitsStore" where
  "loadLimits_resume response s =
     (case response of
        Inr ls \<Rightarrow> (Inr (), s\<lparr>limits := ls, isLoaded := True, loading := False\<rparr>)
      | Inl e \<Rightarrow> (Inr (), s\<lparr>console := console s @ [(''Failed to load limits:'', e)],
                             loading := False\<rparr>))"

text \<open>A call of \<^verbatim>\<open>loadLimits\<close> that is not interleaved with anything else;
  \<open>fetchLimits\<close> is the answer of the remote endpoint.\<close>

definition loadLimits ::
  "(GetLimitsParams option \<Rightarrow> error + Limit list) \<Rightarrow> GetLimitsParams option \<Rightarrow> bool \<Rightarrow>
   LimitsStore \<Rightarrow> (error + unit) \<times> LimitsStore" where
  "loadLimits fetchLimits params force s =
     (case loadLimits_begin params force s of
        (False, s') \<Rightarrow> (Inr (), s')
      | (True, s') \<Rightarrow> loadLimits_resume (fetchLimits params) s')"

definition refreshLimits ::
  "(GetLimitsParams option \<Rightarrow> error + Limit list) \<Rightarrow> LimitsStore \<Rightarrow>
   (error + unit) \<times> LimitsStore" where
  "refreshLimits fetchLimits s = loadLimits fetchLimits (currentFilter s) True s"

text \<open>
  \<^verbatim>\<open>refreshAllStores\<close> of the refresh timer, as far as the limits store is concerned: its
  branch \<^verbatim>\<open>limitsStore.refreshLimits().catch(() => { })\<close> drops any error. The other
  branches work on stores of their own.
\<close>

definition refreshAllStores_limits ::
  "(GetLimitsParams option \<Rightarrow> error + Limit list) \<Rightarrow> LimitsStore \<Rightarrow> LimitsStore" where
  "refreshAllStores_limits fetchLimits s =
     (case refreshLimits fetchLimits s of
        (Inl e, s') \<Rightarrow> s'
      | (Inr u, s') \<Rightarrow> s')"

text \<open>
  The three mutations: set \<open>loading\<close>, send the request, then fetch the list again with
  the recorded filter and store the answer. A failure of either request is logged and
  thrown again (\<open>Inl\<close>); the \<^verbatim>\<open>finally\<close> block clears \<open>loading\<close> on every path.
\<close>

definition addLimit ::
  "(LimitCreateData \<Rightarrow> error + unit) \<Rightarrow> (GetLimitsParams option \<Rightarrow> error + Limit list) \<Rightarrow>
   LimitCreateData \<Rightarrow> LimitsStore \<Rightarrow> (error + unit) \<times> LimitsStore" where
  "addLimit addLimitRequest fetchLimits limitData s =
     (let s1 = s\<lparr>loading := True, requests := requests s @ [AddLimit limitData]\<rparr> in
      case addLimitRequest limitData of
        Inl e \<Rightarrow> (Inl e, s1\<lparr>console := console s1 @ [(''Failed to create limit:'', e)], loading := False\<rparr>)
      | Inr _ \<Rightarrow>
         (let s2 = s1\<lparr>requests := requests s1 @ [GetLimits (currentFilter s1)]\<rparr> in
          case fetchLimits (currentFilter s1) of
            Inl e \<Rightarrow>
              (Inl e, s2\<lparr>console := console s2 @ [(''Failed to create limit:'', e)], loading := False\<rparr>)
          | Inr ls \<Rightarrow> (Inr (), s2\<lparr>limits := ls, loading := False\<rparr>)))"

definition updateLimit ::
  "(string \<Rightarrow> LimitUpdateData \<Rightarrow> error + unit) \<Rightarrow> (GetLimitsParams option \<Rightarrow> error + Limit list) \<Rightarrow>
   string \<Rightarrow> LimitUpdateData \<Rightarrow> LimitsStore \<Rightarrow> (error + unit) \<times> LimitsStore" where
  "updateLimit updateLimitRequest fetchLimits i limitData s =
     (let s1 = s\<lparr>loading := True, requests := requests s @ [UpdateLimit i limitData]\<rparr> in
      case updateLimitRequest i limitData of
        Inl e \<Rightarrow> (Inl e, s1\<lparr>console := console s1 @ [(''Failed to update limit:'', e)], loading := False\<rparr>)
      | Inr _ \<Rightarrow>
         (let s2 = s1\<lparr>requests := requests s1 @ [GetLimits (currentFilter s1)]\<rparr> in
          case fetchLimits (currentFilter s1) of
            Inl e \<Rightarrow>
              (Inl e, s2\<lparr>console := console s2 @ [(''Failed to update limit:'', e)], loading := False\<rparr>)
          | Inr ls \<Rightarrow> (Inr (), s2\<lparr>limits := ls, loading := False\<rparr>)))"

definition removeLimit ::
  "(string \<Rightarrow> error + unit) \<Rightarrow> (GetLimitsParams option \<Rightarrow> error + Limit list) \<Rightarrow>
   string \<Rightarrow> LimitsStore \<Rightarrow> (error + unit) \<times> LimitsStore" where
  "removeLimit removeLimitRequest fetchLimits i s =
     (let s1 = s\<lparr>loading := True, requests := requests s @ [RemoveLimit i]\<rparr> in
      case removeLimitRequest i of
        Inl e \<Rightarrow> (Inl e, s1\<lparr>console := console s1 @ [(''Failed to delete limit:'', e)], loading := False\<rparr>)
      | Inr _ \<Rightarrow>
         (let s2 = s1\<lparr>requests := requests s1 @ [GetLimits (currentFilter s1)]\<rparr> in
          case fetchLimits (currentFilter s1) of
            Inl e \<Rightarrow>
              (Inl e, s2\<lparr>console := console s2 @ [(''Failed to delete limit:'', e)], loading := False\<rparr>)
          | Inr ls \<Rightarrow> (Inr (), s2\<lparr>limits := ls, loading := False\<rparr>)))"

section \<open>Dates\<close>

text \<open>
  A \<^verbatim>\<open>Date\<close> is its time value: milliseconds since 1970-01-01T00:00:00Z, an integer.
  The local time zone is given as LocalTZA of ECMA-262 is, by two functions: the offset
  from UTC, in minutes east, that is in effect at a time value, and the offset that is in
  effect at a local time. Days are counted from 1970-01-01; the two conversions between
  a day number and a proleptic Gregorian date (year, month 1..12, day 1..31) are the
  usual era-based ones.
\<close>

definition msPerDay :: int where
  "msPerDay = 86400000"

definition days_from_civil :: "int \<Rightarrow> int \<Rightarrow> int \<Rightarrow> int" where
  "days_from_civil y m d =
     (let y' = (if m \<le> 2 then y - 1 else y);
          era = y' div 400;
          yoe = y' - era * 400;
          doy = (153 * (if m > 2 then m - 3 else m + 9) + 2) div 5 + d - 1;
          doe = yoe * 365 + yoe div 4 - yoe div 100 + doy
      in era * 146097 + doe - 719468)"

definition civil_from_days :: "int \<Rightarrow> int \<times> int \<times> int" where
  "civil_from_days z =
     (let z' = z + 719468;
          era = z' div 146097;
          doe = z' - era * 146097;
          yoe = (doe - doe div 1460 + doe div 36524 - doe div 146096) div 365;
          doy = doe - (365 * yoe + yoe div 4 - yoe div 100);
          mp = (5 * doy + 2) div 153;
          d = doy - (153 * mp + 2) div 5 + 1;
          m = (if mp < 10 then mp + 3 else mp - 9)
      in (yoe + era * 400 + (if m \<le> 2 then 1 else 0), m, d))"

text \<open>\<^verbatim>\<open>getFullYear()\<close> and \<^verbatim>\<open>getMonth()\<close> read the local time, which is the time
  value moved by the offset in effect at it; months count from 0.\<close>

definition getFullYear :: "(int \<Rightarrow> int) \<Rightarrow> int \<Rightarrow> int" where
  "getFullYear tzaUTC t = fst (civil_from_days ((t + tzaUTC t * 60000) div msPerDay))"

definition getMonth :: "(int \<Rightarrow> int) \<Rightarrow> int \<Rightarrow> int" where
  "getMonth tzaUTC t = fst (snd (civil_from_days ((t + tzaUTC t * 60000) div msPerDay))) - 1"

text \<open>MakeDay of ECMA-262: the month may lie outside 0..11 and the day outside the
  month; both carry over.\<close>

definition MakeDay :: "int \<Rightarrow> int \<Rightarrow> int \<Rightarrow> int" where
  "MakeDay year month date =
     days_from_civil (year + month div 12) (month mod 12 + 1) 1 + date - 1"

text \<open>\<^verbatim>\<open>new Date(year, month, date)\<close>: midnight of that day in local time, as a time
  value; the offset taken off is the one in effect at that local midnight. A year from 0
  to 99 stands for 1900 + year.\<close>

definition newDate :: "(int \<Rightarrow> int) \<Rightarrow> int \<Rightarrow> int \<Rightarrow> int \<Rightarrow> int" where
  "newDate tzaLocal year month date =
     (let yr = (if 0 \<le> year \<and> year \<le> 99 then 1900 + year else year);
          localMidnight = MakeDay yr month date * msPerDay
      in localMidnight - tzaLocal localMidnight * 60000)"

definition pad :: "nat \<Rightarrow> nat \<Rightarrow> string" where
  "pad w n = replicate (w - length (decimal n)) CHR ''0'' @ decimal n"

text \<open>\<^verbatim>\<open>toISOString()\<close> prints the UTC fields of the time value; a year outside
  0..9999 is printed with a sign and six digits.\<close>

definition toISOString :: "int \<Rightarrow> string" where
  "toISOString t =
     (let (y, m, d) = civil_from_days (t div msPerDay);
          ms = t mod msPerDay;
          year = (if 0 \<le> y \<and> y \<le> 9999 then pad 4 (nat y)
                  else (if y < 0 then CHR ''-'' else CHR ''+'') # pad 6 (nat \<bar>y\<bar>))
      in year @ ''-'' @ pad 2 (nat m) @ ''-'' @ pad 2 (nat d) @ ''T'' @
         pad 2 (nat (ms div 3600000)) @ '':'' @ pad 2 (nat (ms div 60000 mod 60)) @ '':'' @
         pad 2 (nat (ms div 1000 mod 60)) @ ''.'' @ pad 3 (nat (ms mod 1000)) @ ''Z'')"

text \<open>\<^verbatim>\<open>x.split('T')[0]\<close>: the text before the first \<^verbatim>\<open>T\<close>.\<close>

definition split_T_0 :: "string \<Rightarrow> string" where
  "split_T_0 x = takeWhile (\<lambda>c. c \<noteq> CHR ''T'') x"

section \<open>Limit forms\<close>

text \<open>Modelled from the spec: the type declaration \<^verbatim>\<open>LimitFormData\<close> is missing; the
  store reads its \<^verbatim>\<open>budget\<close> only.\<close>

record LimitFormData =
  budget :: string

text \<open>The clock of the browser: its time zone, as the two offset functions, and the
  time of the call.\<close>

record Clock =
  offsetAtUTC :: "int \<Rightarrow> int"
  offsetAtLocal :: "int \<Rightarrow> int"
  now :: int

definition convertFormDataToCreateData :: "Clock \<Rightarrow> LimitFormData \<Rightarrow> string \<Rightarrow> LimitCreateData" where
  "convertFormDataToCreateData clock formData categoryId =
     (let year = getFullYear (offsetAtUTC clock) (now clock);
          month = getMonth (offsetAtUTC clock) (now clock);
          periodStart = newDate (offsetAtLocal clock) year month 1;
          periodEnd = newDate (offsetAtLocal clock) year (month + 1) 0
      in \<lparr>amount = budget formData,
          period_start = split_T_0 (toISOString periodStart),
          period_end = split_T_0 (toISOString periodEnd),
          category_id = categoryId\<rparr>)"

definition convertFormDataToUpdateData :: "Clock \<Rightarrow> LimitFormData \<Rightarrow> LimitUpdateData" where
  "convertFormDataToUpdateData clock formData =
     (let year = getFullYear (offsetAtUTC clock) (now clock);
          month = getMonth (offsetAtUTC clock) (now clock);
          periodStart = newDate (offsetAtLocal clock) year month 1;
          periodEnd = newDate (offsetAtLocal clock) year (month + 1) 0
      in \<lparr>amount = budget formData,
          period_start = split_T_0 (toISOString periodStart),
          period_end = split_T_0 (toISOString periodEnd)\<rparr>)"

text \<open>The remote endpoint as \<^verbatim>\<open>handleSubmit\<close> sees it.\<close>

record LimitsRequests =
  getLimits :: "GetLimitsParams option \<Rightarrow> error + Limit list"
  addLimitRequest :: "LimitCreateData \<Rightarrow> error + unit"
  updateLimitRequest :: "string \<Rightarrow> LimitUpdateData \<Rightarrow> error + unit"
  removeLimitRequest :: "string \<Rightarrow> error + unit"

text \<open>\<^verbatim>\<open>handleSubmit\<close> has no \<^verbatim>\<open>catch\<close>: an error of the mutation leaves it at once,
  before the assignments that follow the \<^verbatim>\<open>await\<close>.\<close>

definition handleSubmit ::
  "Clock \<Rightarrow> LimitsRequests \<Rightarrow> LimitFormData \<Rightarrow> string \<Rightarrow> LimitsStore \<Rightarrow>
   (error + unit) \<times> LimitsStore" where
  "handleSubmit clock api formData categoryId s =
     (case editingLimit s of
        Some l \<Rightarrow>
          (let updateData = convertFormDataToUpdateData clock formData in
           case updateLimit (updateLimitRequest api) (getLimits api) (limit_id l) updateData s of
             (Inl e, s') \<Rightarrow> (Inl e, s')
           | (Inr _, s') \<Rightarrow> (Inr (), s'\<lparr>editingLimit := None, drawerVisible := False\<rparr>))
      | None \<Rightarrow>
          (let createData = convertFormDataToCreateData clock formData categoryId in
           case addLimit (addLimitRequest api) (getLimits api) createData s of
             (Inl e, s') \<Rightarrow> (Inl e, s')
           | (Inr _, s') \<Rightarrow> (Inr (), s'\<lparr>drawerVisible := False\<rparr>)))"

section \<open>The transactions page\<close>

text \<open>Modelled from the spec: the type declarations \<^verbatim>\<open>Transaction\<close>,
  \<^verbatim>\<open>TransactionFormData\<close> and \<^verbatim>\<open>TransactionUpdateData\<close> are missing (section 3: a
  transaction has an identifier, a kind, an amount, a currency code, an optional category
  reference, a description, a transaction date and a creation timestamp). The amount of
  a form is a number or a string; its type is left open and \<^verbatim>\<open>toString()\<close> is a
  parameter.\<close>

datatype TransactionType = Income | Expense

record Transaction =
  tx_id :: string
  tx_type :: TransactionType
  tx_amount :: string
  tx_currency :: string
  tx_category_id :: "string option"
  tx_description :: string
  tx_transaction_date :: string
  tx_created_at :: string

text \<open>The category reference of a form and of an update payload is kept as the list of
  its UTF-16 code units, numbers below 65536, so that all the white space of JavaScript
  can be told apart.\<close>

type_synonym code_units = "nat list"

text \<open>In the form, \<open>form_category_id = None\<close> is a missing, \<^verbatim>\<open>undefined\<close> or \<^verbatim>\<open>null\<close>
  \<^verbatim>\<open>category_id\<close>. In the update payload, \<open>upd_category_id = None\<close> is an object
  without the property \<^verbatim>\<open>category_id\<close>.\<close>

record 'a TransactionFormData =
  form_type :: TransactionType
  form_amount :: 'a
  form_currency :: string
  form_description :: string
  form_transaction_date :: string
  form_category_id :: "code_units option"

record TransactionUpdateData =
  upd_type :: TransactionType
  upd_amount :: string
  upd_currency :: string
  upd_description :: string
  upd_transaction_date :: string
  upd_category_id :: "code_units option"

text \<open>\<^verbatim>\<open>String.prototype.trim\<close> removes white space and line terminators from both
  ends. White space of ECMA-262 is TAB, VT, FF, the space separators of Unicode
  (U+0020, U+00A0, U+1680, U+2000 to U+200A, U+202F, U+205F, U+3000) and U+FEFF; the line
  terminators are LF, CR, U+2028 and U+2029.\<close>

definition isWhiteSpace :: "nat \<Rightarrow> bool" where
  "isWhiteSpace u =
     (u \<in> {0x9, 0xB, 0xC, 0x20, 0xA0, 0x1680, 0x202F, 0x205F, 0x3000, 0xFEFF} \<or>
      (0x2000 \<le> u \<and> u \<le> 0x200A) \<or>
      u \<in> {0xA, 0xD, 0x2028, 0x2029})"

definition trim :: "code_units \<Rightarrow> code_units" where
  "trim s = rev (dropWhile isWhiteSpace (rev (dropWhile isWhiteSpace s)))"

text \<open>The condition \<^verbatim>\<open>formData.category_id && formData.category_id.trim() !== ''\<close>:
  the left operand is falsy for \<^verbatim>\<open>undefined\<close>, \<^verbatim>\<open>null\<close> and the empty string.\<close>

definition convertFormDataToUpdateData_tx ::
  "('a \<Rightarrow> string) \<Rightarrow> 'a TransactionFormData \<Rightarrow> TransactionUpdateData" where
  "convertFormDataToUpdateData_tx toString formData =
     (let updateData = \<lparr>upd_type = form_type formData,
                         upd_amount = toString (form_amount formData),
                         upd_currency = form_currency formData,
                         upd_description = form_description formData,
                         upd_transaction_date = form_transaction_date formData,
                         upd_category_id = None\<rparr>
      in case form_category_id formData of
           None \<Rightarrow> updateData
         | Some c \<Rightarrow>
             if c \<noteq> [] \<and> trim c \<noteq> [] then updateData\<lparr>upd_category_id := Some c\<rparr>
             else updateData)"

text \<open>A translated message: the key given to \<^verbatim>\<open>t\<close> and its \<^verbatim>\<open>count\<close>, if any.\<close>

type_synonym message = "string \<times> nat option"

datatype toast = ToastSuccess message message | ToastError message message

text \<open>Modelled from the spec: the type declaration \<^verbatim>\<open>GetTransactionsParams\<close> is
  missing (section 6: filter objects are plain key/value structures).\<close>

type_synonym GetTransactionsParams = jsobject

text \<open>The actions of the transactions store that the page calls.\<close>

datatype store_call =
    ApplyFilters GetTransactionsParams
  | ResetFilters
  | RemoveTransactions "string list"
  | RefreshTransactions

text \<open>
  The state the page works on: its own refs \<open>selectionMode\<close> and \<open>selectedIds\<close>, the
  flag of the layout store, the list of the transactions store that the page displays,
  the toasts shown, and the trace of the store actions called.
\<close>

record TransactionsPage =
  selectionMode :: bool
  selectedIds :: "string list"
  hideBottomBar :: bool
  transactions :: "Transaction list"
  toasts :: "toast list"
  storeCalls :: "store_call list"

definition initialPage :: TransactionsPage where
  "initialPage = \<lparr>selectionMode = False, selectedIds = [], hideBottomBar = False,
     transactions = [], toasts = [], storeCalls = []\<rparr>"

text \<open>Modelled from the spec: \<^verbatim>\<open>applyFilters\<close> and \<^verbatim>\<open>resetFilters\<close> of the transactions
  store are missing (section 4.1: a load with a filter fetches from the remote endpoint
  and replaces the contents of the cache wholesale). The store has no access to the refs
  of the page; its answer, the new list or an error, is a parameter.\<close>

definition handleApplyFilters ::
  "(GetTransactionsParams \<Rightarrow> error + Transaction list) \<Rightarrow> GetTransactionsParams \<Rightarrow>
   TransactionsPage \<Rightarrow> (error + unit) \<times> TransactionsPage" where
  "handleApplyFilters applyFilters filters s =
     (let s1 = s\<lparr>storeCalls := storeCalls s @ [ApplyFilters filters]\<rparr> in
      case applyFilters filters of
        Inl e \<Rightarrow> (Inl e, s1)
      | Inr txs \<Rightarrow> (Inr (), s1\<lparr>transactions := txs\<rparr>))"

definition handleResetFilters ::
  "(error + Transaction list) \<Rightarrow> TransactionsPage \<Rightarrow> (error + unit) \<times> TransactionsPage" where
  "handleResetFilters resetFilters s =
     (let s1 = s\<lparr>storeCalls := storeCalls s @ [ResetFilters]\<rparr> in
      case resetFilters of
        Inl e \<Rightarrow> (Inl e, s1)
      | Inr txs \<Rightarrow> (Inr (), s1\<lparr>transactions := txs\<rparr>))"

definition handleSelect :: "Transaction \<Rightarrow> bool \<Rightarrow> TransactionsPage \<Rightarrow> TransactionsPage" where
  "handleSelect transaction selected s =
     (if selected then s\<lparr>selectedIds := selectedIds s @ [tx_id transaction]\<rparr>
      else s\<lparr>selectedIds := filter (\<lambda>i. i \<noteq> tx_id transaction) (selectedIds s)\<rparr>)"

definition exitSelectionMode :: "TransactionsPage \<Rightarrow> TransactionsPage" where
  "exitSelectionMode s = s\<lparr>selectionMode := False, selectedIds := [], hideBottomBar := False\<rparr>"

definition toggleSelectionMode :: "TransactionsPage \<Rightarrow> TransactionsPage" where
  "toggleSelectionMode s =
     (if selectionMode s then exitSelectionMode s
      else s\<lparr>selectionMode := True, hideBottomBar := True\<rparr>)"

text \<open>
  \<^verbatim>\<open>handleMassDelete\<close>. The answers of the two store actions are parameters:
  \<open>removeTransactions\<close> for the bulk delete, \<open>refreshTransactions\<close> for the refresh (the
  new list, or an error). The \<^verbatim>\<open>catch\<close> block shows a toast and throws nothing.
\<close>

definition handleMassDelete ::
  "(string list \<Rightarrow> error + unit) \<Rightarrow> (error + Transaction list) \<Rightarrow>
   TransactionsPage \<Rightarrow> TransactionsPage" where
  "handleMassDelete removeTransactions refreshTransactions s =
     (if length (selectedIds s) = 0 then s
      else
        let idsToDelete = selectedIds s;
            s1 = s\<lparr>storeCalls := storeCalls s @ [RemoveTransactions idsToDelete]\<rparr>
        in case removeTransactions idsToDelete of
             Inl e \<Rightarrow>
               s1\<lparr>toasts := toasts s1 @
                    [ToastError (''common.error'', None) (''transactions.deleteError'', None)]\<rparr>
           | Inr _ \<Rightarrow>
               (let s2 = exitSelectionMode s1;
                    s3 = s2\<lparr>storeCalls := storeCalls s2 @ [RefreshTransactions]\<rparr>
                in case refreshTransactions of
                     Inl e \<Rightarrow>
                       s3\<lparr>toasts := toasts s3 @
                            [ToastError (''common.error'', None)
                               (''transactions.deleteError'', None)]\<rparr>
                   | Inr txs \<Rightarrow>
                       s3\<lparr>transactions := txs,
                          toasts := toasts s3 @
                            [ToastSuccess (''common.success'', None)
                               (''transactions.massDeleteSuccess'', Some (length idsToDelete))]\<rparr>))"

section \<open>Structural equality of filters\<close>

text \<open>The properties of an object that have a value, in property order.\<close>

fun definedProperties :: "jsobject \<Rightarrow> (string \<times> jsprim) list" where
  "definedProperties [] = []"
| "definedProperties ((k, None) # ps) = definedProperties ps"
| "definedProperties ((k, Some v) # ps) = (k, v) # definedProperties ps"

text \<open>
  Structural equality in the words of the specification (sections 4.2 and 6): deep
  equality field by field, whatever the order of the fields, after absent fields are
  brought to one form. A field without a value counts as absent; two filters are equal
  when both are missing, or when both have the same fields with the same values.
\<close>

definition structurally_equal_spec :: "jsobject option \<Rightarrow> jsobject option \<Rightarrow> bool" where
  "structurally_equal_spec a b =
     (case (a, b) of
        (None, None) \<Rightarrow> True
      | (Some x, Some y) \<Rightarrow> set (definedProperties x) = set (definedProperties y)
      | _ \<Rightarrow> False)"

text \<open>Notions for reading a serialised object back: decimal digits and their value,
  the two characters that can follow a property, and the text of one property.\<close>

definition is_digit :: "char \<Rightarrow> bool" where
  "is_digit c = (48 \<le> (of_char c :: nat) \<and> (of_char c :: nat) \<le> 57)"

definition digits_value :: "string \<Rightarrow> nat" where
  "digits_value ds = foldl (\<lambda>a c. 10 * a + (of_char c - 48)) 0 ds"

definition closes :: "string \<Rightarrow> bool" where
  "closes x = (case x of [] \<Rightarrow> False | h # t \<Rightarrow> h = CHR '','' \<or> h = CHR ''}'')"

definition property_text :: "string \<times> jsprim \<Rightarrow> string" where
  "property_text p = QuoteJSONString (fst p) @ '':'' @ SerializeJSONPrim (snd p)"

section \<open>Example data\<close>

definition filter_month :: GetLimitsParams where
  "filter_month = [(''period'', Some (JStr ''month''))]"

definition filter_year :: GetLimitsParams where
  "filter_year = [(''period'', Some (JStr ''year''))]"

definition limit_food :: Limit where
  "limit_food = \<lparr>limit_id = ''l1'', limit_category_id = ''food'', limit_amount = ''100000'',
     limit_period_start = ''2024-06-01'', limit_period_end = ''2024-06-30'',
     limit_created_at = ''2024-06-02T10:00:00Z''\<rparr>"

definition limit_rent :: Limit where
  "limit_rent = \<lparr>limit_id = ''l2'', limit_category_id = ''rent'', limit_amount = ''900000'',
     limit_period_start = ''2024-06-01'', limit_period_end = ''2024-06-30'',
     limit_created_at = ''2024-06-03T10:00:00Z''\<rparr>"

text \<open>Three remote endpoints: two that answer every listing with one limit, one that
  fails.\<close>

definition serverFood :: "GetLimitsParams option \<Rightarrow> error + Limit list" where
  "serverFood params = Inr [limit_food]"

definition serverRent :: "GetLimitsParams option \<Rightarrow> error + Limit list" where
  "serverRent params = Inr [limit_rent]"

definition serverDown :: "GetLimitsParams option \<Rightarrow> error + Limit list" where
  "serverDown params = Inl (Error ''503'')"

definition requestAccepted :: "'a \<Rightarrow> error + unit" where
  "requestAccepted x = Inr ()"

definition updateAccepted :: "string \<Rightarrow> LimitUpdateData \<Rightarrow> error + unit" where
  "updateAccepted i u = Inr ()"

definition create_rent :: LimitCreateData where
  "create_rent = \<lparr>amount = ''900000'', period_start = ''2024-06-01'',
     period_end = ''2024-06-30'', category_id = ''rent''\<rparr>"

definition update_food :: LimitUpdateData where
  "update_food = \<lparr>amount = ''150000'', period_start = ''2024-06-01'',
     period_end = ''2024-06-30''\<rparr>"

text \<open>The store after a first successful load of the month filter, and the store while
  that load is still waiting for its answer.\<close>

definition store_month :: LimitsStore where
  "store_month = snd (loadLimits serverFood (Some filter_month) False initialStore)"

definition store_loading :: LimitsStore where
  "store_loading = snd (loadLimits_begin (Some filter_month) False initialStore)"

definition tx1 :: Transaction where
  "tx1 = \<lparr>tx_id = ''t1'', tx_type = Expense, tx_amount = ''25000'', tx_currency = ''uzs'',
     tx_category_id = Some ''food'', tx_description = ''lunch'',
     tx_transaction_date = ''2024-06-14'', tx_created_at = ''2024-06-14T08:00:00Z''\<rparr>"

definition tx2 :: Transaction where
  "tx2 = \<lparr>tx_id = ''t2'', tx_type = Income, tx_amount = ''5000000'', tx_currency = ''uzs'',
     tx_category_id = None, tx_description = ''salary'',
     tx_transaction_date = ''2024-06-10'', tx_created_at = ''2024-06-10T08:00:00Z''\<rparr>"

definition removeRejected :: "string list \<Rightarrow> error + unit" where
  "removeRejected ids = Inl (Error ''500'')"

definition removeAccepted :: "string list \<Rightarrow> error + unit" where
  "removeAccepted ids = Inr ()"

definition filter_income :: GetTransactionsParams where
  "filter_income = [(''type'', Some (JStr ''income''))]"

definition applyIncome :: "GetTransactionsParams \<Rightarrow> error + Transaction list" where
  "applyIncome filters = Inr [tx2]"

text \<open>The page after it is mounted with two transactions; with selection mode entered
  and both selected; and with the first selected and the income filter applied.\<close>

definition page_listed :: TransactionsPage where
  "page_listed = snd (handleResetFilters (Inr [tx1, tx2]) initialPage)"

definition page_selected :: TransactionsPage where
  "page_selected = handleSelect tx2 True (handleSelect tx1 True (toggleSelectionMode page_listed))"

definition page_filtered :: TransactionsPage where
  "page_filtered =
     snd (handleApplyFilters applyIncome filter_income
       (handleSelect tx1 True (toggleSelectionMode page_listed)))"

text \<open>Two filters with the same two fields in different orders.\<close>

definition filter_month_food :: GetLimitsParams where
  "filter_month_food = [(''period'', Some (JStr ''month'')), (''category_id'', Some (JStr ''food''))]"

definition filter_food_month :: GetLimitsParams where
  "filter_food_month = [(''category_id'', Some (JStr ''food'')), (''period'', Some (JStr ''month''))]"

text \<open>A zone with one offset all year. A browser five hours east of UTC and one on UTC,
  both at 2024-06-15T07:00:00Z.\<close>

definition fixedOffset :: "int \<Rightarrow> int \<Rightarrow> int" where
  "fixedOffset minutes t = minutes"

definition clock_tashkent :: Clock where
  "clock_tashkent = \<lparr>offsetAtUTC = fixedOffset 300, offsetAtLocal = fixedOffset 300,
     now = 1718434800000\<rparr>"

definition clock_utc :: Clock where
  "clock_utc = \<lparr>offsetAtUTC = fixedOffset 0, offsetAtLocal = fixedOffset 0,
     now = 1718434800000\<rparr>"

text \<open>London in 2024: one hour east of UTC from 2024-03-31T01:00:00Z to
  2024-10-27T01:00:00Z. A browser there at 2024-10-15T11:00:00Z.\<close>

definition londonAtUTC :: "int \<Rightarrow> int" where
  "londonAtUTC t = (if 1711846800000 \<le> t \<and> t < 1729990800000 then 60 else 0)"

definition londonAtLocal :: "int \<Rightarrow> int" where
  "londonAtLocal t = (if 1711850400000 \<le> t \<and> t < 1729994400000 then 60 else 0)"

definition clock_london :: Clock where
  "clock_london = \<lparr>offsetAtUTC = londonAtUTC, offsetAtLocal = londonAtLocal,
     now = 1728990000000\<rparr>"

text \<open>A form with a budget; a remote endpoint that accepts every request.\<close>

definition form_budget :: LimitFormData where
  "form_budget = \<lparr>budget = ''100000''\<rparr>"

definition api_accepting :: LimitsRequests where
  "api_accepting = \<lparr>getLimits = serverFood, addLimitRequest = requestAccepted,
     updateLimitRequest = updateAccepted, removeLimitRequest = requestAccepted\<rparr>"

text \<open>Three forms of a transaction: with the category \<^verbatim>\<open>food\<close>, with a category of
  a space, an em space (U+2003) and a tab, and without a category.\<close>

definition form_food :: "int TransactionFormData" where
  "form_food = \<lparr>form_type = Expense, form_amount = 25000, form_currency = ''uzs'',
     form_description = ''lunch'', form_transaction_date = ''2024-06-14'',
     form_category_id = Some [102, 111, 111, 100]\<rparr>"

definition form_blank :: "int TransactionFormData" where
  "form_blank = form_food\<lparr>form_category_id := Some [0x20, 0x2003, 0x9]\<rparr>"

definition form_uncategorised :: "int TransactionFormData" where
  "form_uncategorised = form_food\<lparr>form_category_id := None\<rparr>"

section \<open>Loading the limits\<close>

lemma filterChanged_same: "\<not> filterChanged f f"
  by (simp add: filterChanged_def)

lemma store_month_eq:
  "store_month = initialStore\<lparr>limits := [limit_food], isLoaded := True,
     currentFilter := Some filter_month, requests := [GetLimits (Some filter_month)]\<rparr>"
  by (simp add: store_month_def loadLimits_def loadLimits_begin_def loadLimits_resume_def
      serverFood_def initialStore_def)

lemma month_year_differ: "filterChanged (Some filter_month) (Some filter_year)"
  by (simp add: filterChanged_def filter_month_def filter_year_def SerializeJSONObject_def
      QuoteJSONString_def QuoteJSONChar_def)

text \<open>
  C1. After a call \<open>loadLimits f\<close> whose request is answered, a second call with the
  same filter and \<open>force = False\<close> returns the store as it is: no request is sent, and
  the contents, the loaded flag and the recorded filter stay. When the first call is
  not stopped by one of the two guards, it sends the only request of the two calls.
\<close>

theorem loadLimits_twice:
  assumes first: "loadLimits fetchLimits f force s = (r1, s1)"
    and ok: "fetchLimits f = Inr ls"
  shows "loadLimits fetchLimits' f False s1 = (Inr (), s1) \<and>
    (\<not> loading s \<and> (force \<or> \<not> isLoaded s \<or> filterChanged (currentFilter s) f) \<longrightarrow>
       s1 = s\<lparr>limits := ls, loading := False, isLoaded := True, currentFilter := f,
              requests := requests s @ [GetLimits f]\<rparr>)"
  using first ok
  by (auto simp add: loadLimits_def loadLimits_begin_def loadLimits_resume_def filterChanged_same
      split: if_splits)

theorem loadLimits_twice_witness:
  "loadLimits serverFood (Some filter_month) False initialStore = (Inr (), store_month) \<and>
   serverFood (Some filter_month) = Inr [limit_food] \<and>
   \<not> loading initialStore \<and> \<not> isLoaded initialStore \<and>
   loadLimits serverDown (Some filter_month) False store_month = (Inr (), store_month) \<and>
   store_month = initialStore\<lparr>limits := [limit_food], loading := False, isLoaded := True,
     currentFilter := Some filter_month,
     requests := requests initialStore @ [GetLimits (Some filter_month)]\<rparr>"
proof -
  have first: "loadLimits serverFood (Some filter_month) False initialStore = (Inr (), store_month)"
    by (simp add: store_month_eq loadLimits_def loadLimits_begin_def loadLimits_resume_def
        serverFood_def initialStore_def)
  have ok: "serverFood (Some filter_month) = Inr [limit_food]"
    by (simp add: serverFood_def)
  have idle: "\<not> loading initialStore \<and> \<not> isLoaded initialStore"
    by (simp add: initialStore_def)
  from loadLimits_twice [OF first ok, of serverDown] first ok idle show ?thesis
    by simp
qed

text \<open>A load whose request fails, started by the user on a fresh store: the call
  returns normally, and the error is in the console only.\<close>

theorem loadLimits_swallows_error_example:
  "serverDown (Some filter_month) = Inl (Error ''503'') \<and>
   loadLimits serverDown (Some filter_month) False initialStore =
     (Inr (), initialStore\<lparr>currentFilter := Some filter_month,
        requests := [GetLimits (Some filter_month)],
        console := [(''Failed to load limits:'', Error ''503'')]\<rparr>)"
  by (simp add: loadLimits_def loadLimits_begin_def loadLimits_resume_def serverDown_def
      initialStore_def filterChanged_def)

text \<open>
  C3, as amended. \<open>loadLimits\<close> throws to no caller: whoever calls it, and also through
  \<open>refreshLimits\<close>, the call returns normally; when the request was sent and failed,
  the error is written to the console.
\<close>

theorem loadLimits_never_throws:
  "fst (loadLimits fetchLimits params force s) = Inr () \<and>
   fst (refreshLimits fetchLimits s) = Inr () \<and>
   (fst (loadLimits_begin params force s) \<and> fetchLimits params = Inl e \<longrightarrow>
      console (snd (loadLimits fetchLimits params force s)) =
        console s @ [(''Failed to load limits:'', e)])"
  by (auto simp add: refreshLimits_def loadLimits_def loadLimits_begin_def loadLimits_resume_def
      split: sum.splits)

theorem loadLimits_never_throws_witness:
  "fst (loadLimits_begin (Some filter_month) False initialStore) \<and>
   serverDown (Some filter_month) = Inl (Error ''503'') \<and>
   fst (loadLimits serverDown (Some filter_month) False initialStore) = Inr () \<and>
   console (snd (loadLimits serverDown (Some filter_month) False initialStore)) =
     [(''Failed to load limits:'', Error ''503'')]"
  using loadLimits_never_throws [of serverDown "Some filter_month" False initialStore "Error ''503''"]
  by (simp add: loadLimits_begin_def serverDown_def initialStore_def)

text \<open>What a failed load leaves behind, in general: the contents and the loaded flag
  of before, \<open>loading\<close> cleared, and the requested filter as the recorded one.\<close>

lemma loadLimits_failure_state:
  assumes "fst (loadLimits_begin params force s)" and "fetchLimits params = Inl e"
  shows "snd (loadLimits fetchLimits params force s) =
    s\<lparr>loading := False, currentFilter := params,
      requests := requests s @ [GetLimits params],
      console := console s @ [(''Failed to load limits:'', e)]\<rparr>"
  using assms
  by (auto simp add: loadLimits_def loadLimits_begin_def loadLimits_resume_def split: if_splits)

text \<open>
  C4. The store holds the limits of the month filter; a load of the year filter fails.
  The contents and the loaded flag stay and \<open>loading\<close> is cleared, but the recorded
  filter is now the year filter. A later load of the year filter is then taken for a
  cache hit: it sends no request and leaves the limits of the month filter in place.
\<close>

theorem loadLimits_failure_keeps_requested_filter:
  "snd (loadLimits serverDown (Some filter_year) False store_month) =
     store_month\<lparr>currentFilter := Some filter_year,
        requests := [GetLimits (Some filter_month), GetLimits (Some filter_year)],
        console := [(''Failed to load limits:'', Error ''503'')]\<rparr> \<and>
   limits (snd (loadLimits serverDown (Some filter_year) False store_month)) = [limit_food] \<and>
   loadLimits serverRent (Some filter_year) False
       (snd (loadLimits serverDown (Some filter_year) False store_month)) =
     (Inr (), snd (loadLimits serverDown (Some filter_year) False store_month))"
proof -
  have fail: "snd (loadLimits serverDown (Some filter_year) False store_month) =
     store_month\<lparr>currentFilter := Some filter_year,
        requests := [GetLimits (Some filter_month), GetLimits (Some filter_year)],
        console := [(''Failed to load limits:'', Error ''503'')]\<rparr>"
    using month_year_differ
    by (simp add: store_month_eq loadLimits_def loadLimits_begin_def loadLimits_resume_def
        serverDown_def initialStore_def)
  show ?thesis
    unfolding fail
    by (simp add: store_month_eq loadLimits_def loadLimits_begin_def initialStore_def
        filterChanged_same)
qed

text \<open>
  C5. While \<open>loading\<close> is set, a call of \<open>loadLimits\<close>, with or without \<open>force\<close>, a
  call of \<open>refreshLimits\<close> and a tick of the refresh timer return the store as it is
  and send nothing. So when a first call is suspended at its request, any call made
  before the answer arrives sends nothing, and when the first call resumes, the trace of
  requests has grown by its one request.
\<close>

theorem loadLimits_busy_guard:
  "(loading b \<longrightarrow>
      loadLimits_begin params force b = (False, b) \<and>
      loadLimits fetchLimits params force b = (Inr (), b) \<and>
      refreshLimits fetchLimits b = (Inr (), b) \<and>
      refreshAllStores_limits fetchLimits b = b) \<and>
   (loadLimits_begin params1 force1 s = (True, s1) \<longrightarrow>
      loading s1 \<and>
      loadLimits_begin params force s1 = (False, s1) \<and>
      loadLimits fetchLimits params force s1 = (Inr (), s1) \<and>
      refreshLimits fetchLimits s1 = (Inr (), s1) \<and>
      refreshAllStores_limits fetchLimits s1 = s1 \<and>
      requests (snd (loadLimits_resume response s1)) = requests s @ [GetLimits params1])"
  by (auto simp add: refreshAllStores_limits_def refreshLimits_def loadLimits_def
      loadLimits_begin_def loadLimits_resume_def split: if_splits sum.splits)

theorem loadLimits_busy_guard_witness:
  "loadLimits_begin (Some filter_month) False initialStore = (True, store_loading) \<and>
   loading store_loading \<and>
   loadLimits serverRent (Some filter_year) True store_loading = (Inr (), store_loading) \<and>
   refreshLimits serverRent store_loading = (Inr (), store_loading) \<and>
   refreshAllStores_limits serverRent store_loading = store_loading \<and>
   requests (snd (loadLimits_resume (Inr [limit_food]) store_loading)) =
     [GetLimits (Some filter_month)]"
  using loadLimits_busy_guard [where b = store_loading and params = "Some filter_year"
      and force = True and fetchLimits = serverRent and ?params1.0 = "Some filter_month"
      and ?force1.0 = False and s = initialStore and ?s1.0 = store_loading
      and response = "Inr [limit_food]"]
  by (simp add: store_loading_def loadLimits_begin_def initialStore_def)

section \<open>Mutations of the limits\<close>

lemma addLimit_cases:
  "addLimit addReq fetchLimits d s =
     (case addReq d of
        Inl e \<Rightarrow> (Inl e, s\<lparr>loading := False, requests := requests s @ [AddLimit d],
                    console := console s @ [(''Failed to create limit:'', e)]\<rparr>)
      | Inr ok \<Rightarrow>
          (case fetchLimits (currentFilter s) of
             Inl e \<Rightarrow> (Inl e, s\<lparr>loading := False,
                         requests := requests s @ [AddLimit d, GetLimits (currentFilter s)],
                         console := console s @ [(''Failed to create limit:'', e)]\<rparr>)
           | Inr ls \<Rightarrow> (Inr (), s\<lparr>limits := ls, loading := False,
                         requests := requests s @ [AddLimit d, GetLimits (currentFilter s)]\<rparr>)))"
  by (simp add: addLimit_def Let_def split: sum.splits)

lemma updateLimit_cases:
  "updateLimit updReq fetchLimits i u s =
     (case updReq i u of
        Inl e \<Rightarrow> (Inl e, s\<lparr>loading := False, requests := requests s @ [UpdateLimit i u],
                    console := console s @ [(''Failed to update limit:'', e)]\<rparr>)
      | Inr ok \<Rightarrow>
          (case fetchLimits (currentFilter s) of
             Inl e \<Rightarrow> (Inl e, s\<lparr>loading := False,
                         requests := requests s @ [UpdateLimit i u, GetLimits (currentFilter s)],
                         console := console s @ [(''Failed to update limit:'', e)]\<rparr>)
           | Inr ls \<Rightarrow> (Inr (), s\<lparr>limits := ls, loading := False,
                         requests := requests s @ [UpdateLimit i u, GetLimits (currentFilter s)]\<rparr>)))"
  by (simp add: updateLimit_def Let_def split: sum.splits)

lemma removeLimit_cases:
  "removeLimit remReq fetchLimits i s =
     (case remReq i of
        Inl e \<Rightarrow> (Inl e, s\<lparr>loading := False, requests := requests s @ [RemoveLimit i],
                    console := console s @ [(''Failed to delete limit:'', e)]\<rparr>)
      | Inr ok \<Rightarrow>
          (case fetchLimits (currentFilter s) of
             Inl e \<Rightarrow> (Inl e, s\<lparr>loading := False,
                         requests := requests s @ [RemoveLimit i, GetLimits (currentFilter s)],
                         console := console s @ [(''Failed to delete limit:'', e)]\<rparr>)
           | Inr ls \<Rightarrow> (Inr (), s\<lparr>limits := ls, loading := False,
                         requests := requests s @ [RemoveLimit i, GetLimits (currentFilter s)]\<rparr>)))"
  by (simp add: removeLimit_def Let_def split: sum.splits)

text \<open>
  C9. When the request of \<open>addLimit\<close>, \<open>updateLimit\<close> or \<open>removeLimit\<close> succeeds, the
  operation next asks for the list with the recorded filter; when that request is
  answered, the operation returns normally with the answer as the new contents and
  \<open>loading\<close> cleared. The operation returns normally in no other case, and the
  contents are then the answer of the remote endpoint to that listing. An identifier
  that the answer does not list is absent from the cache.
\<close>

theorem mutation_refetches:
  "((addReq d = Inr () \<longrightarrow>
       requests (snd (addLimit addReq fetchLimits d s)) =
         requests s @ [AddLimit d, GetLimits (currentFilter s)] \<and>
       (fetchLimits (currentFilter s) = Inr ls \<longrightarrow>
          addLimit addReq fetchLimits d s =
            (Inr (), s\<lparr>limits := ls, loading := False,
               requests := requests s @ [AddLimit d, GetLimits (currentFilter s)]\<rparr>))) \<and>
    (fst (addLimit addReq fetchLimits d s) = Inr () \<longrightarrow>
       addReq d = Inr () \<and>
       fetchLimits (currentFilter s) = Inr (limits (snd (addLimit addReq fetchLimits d s))))) \<and>
   ((updReq i u = Inr () \<longrightarrow>
       requests (snd (updateLimit updReq fetchLimits i u s)) =
         requests s @ [UpdateLimit i u, GetLimits (currentFilter s)] \<and>
       (fetchLimits (currentFilter s) = Inr ls \<longrightarrow>
          updateLimit updReq fetchLimits i u s =
            (Inr (), s\<lparr>limits := ls, loading := False,
               requests := requests s @ [UpdateLimit i u, GetLimits (currentFilter s)]\<rparr>))) \<and>
    (fst (updateLimit updReq fetchLimits i u s) = Inr () \<longrightarrow>
       updReq i u = Inr () \<and>
       fetchLimits (currentFilter s) = Inr (limits (snd (updateLimit updReq fetchLimits i u s))))) \<and>
   ((remReq i = Inr () \<longrightarrow>
       requests (snd (removeLimit remReq fetchLimits i s)) =
         requests s @ [RemoveLimit i, GetLimits (currentFilter s)] \<and>
       (fetchLimits (currentFilter s) = Inr ls \<longrightarrow>
          removeLimit remReq fetchLimits i s =
            (Inr (), s\<lparr>limits := ls, loading := False,
               requests := requests s @ [RemoveLimit i, GetLimits (currentFilter s)]\<rparr>))) \<and>
    (fst (removeLimit remReq fetchLimits i s) = Inr () \<longrightarrow>
       remReq i = Inr () \<and>
       fetchLimits (currentFilter s) = Inr (limits (snd (removeLimit remReq fetchLimits i s))))) \<and>
   (remReq i = Inr () \<and> fetchLimits (currentFilter s) = Inr ls \<and> i \<notin> limit_id ` set ls \<longrightarrow>
      i \<notin> limit_id ` set (limits (snd (removeLimit remReq fetchLimits i s))))"
proof -
  have addLimit: "((addReq d = Inr () \<longrightarrow>
       requests (snd (addLimit addReq fetchLimits d s)) =
         requests s @ [AddLimit d, GetLimits (currentFilter s)] \<and>
       (fetchLimits (currentFilter s) = Inr ls \<longrightarrow>
          addLimit addReq fetchLimits d s =
            (Inr (), s\<lparr>limits := ls, loading := False,
               requests := requests s @ [AddLimit d, GetLimits (currentFilter s)]\<rparr>))) \<and>
    (fst (addLimit addReq fetchLimits d s) = Inr () \<longrightarrow>
       addReq d = Inr () \<and>
       fetchLimits (currentFilter s) = Inr (limits (snd (addLimit addReq fetchLimits d s)))))"
    by (simp add: addLimit_cases split: sum.splits)
  have updateLimit: "((updReq i u = Inr () \<longrightarrow>
       requests (snd (updateLimit updReq fetchLimits i u s)) =
         requests s @ [UpdateLimit i u, GetLimits (currentFilter s)] \<and>
       (fetchLimits (currentFilter s) = Inr ls \<longrightarrow>
          updateLimit updReq fetchLimits i u s =
            (Inr (), s\<lparr>limits := ls, loading := False,
               requests := requests s @ [UpdateLimit i u, GetLimits (currentFilter s)]\<rparr>))) \<and>
    (fst (updateLimit updReq fetchLimits i u s) = Inr () \<longrightarrow>
       updReq i u = Inr () \<and>
       fetchLimits (currentFilter s) = Inr (limits (snd (updateLimit updReq fetchLimits i u s)))))"
    by (simp add: updateLimit_cases split: sum.splits)
  have removeLimit: "((remReq i = Inr () \<longrightarrow>
       requests (snd (removeLimit remReq fetchLimits i s)) =
         requests s @ [RemoveLimit i, GetLimits (currentFilter s)] \<and>
       (fetchLimits (currentFilter s) = Inr ls \<longrightarrow>
          removeLimit remReq fetchLimits i s =
            (Inr (), s\<lparr>limits := ls, loading := False,
               requests := requests s @ [RemoveLimit i, GetLimits (currentFilter s)]\<rparr>))) \<and>
    (fst (removeLimit remReq fetchLimits i s) = Inr () \<longrightarrow>
       remReq i = Inr () \<and>
       fetchLimits (currentFilter s) = Inr (limits (snd (removeLimit remReq fetchLimits i s)))))"
    by (simp add: removeLimit_cases split: sum.splits)
  have absent: "remReq i = Inr () \<and> fetchLimits (currentFilter s) = Inr ls \<and>
      i \<notin> limit_id ` set ls \<longrightarrow>
      i \<notin> limit_id ` set (limits (snd (removeLimit remReq fetchLimits i s)))"
    by (simp add: removeLimit_cases)
  show ?thesis
    by (rule conjI [OF addLimit conjI [OF updateLimit conjI [OF removeLimit absent]]])
qed

theorem mutation_refetches_witness:
  "requestAccepted create_rent = Inr () \<and> updateAccepted ''l1'' update_food = Inr () \<and>
   requestAccepted ''l1'' = Inr () \<and>
   serverRent (currentFilter store_month) = Inr [limit_rent] \<and>
   ''l1'' \<notin> limit_id ` set [limit_rent] \<and>
   limits (snd (addLimit requestAccepted serverRent create_rent store_month)) = [limit_rent] \<and>
   limits (snd (updateLimit updateAccepted serverRent ''l1'' update_food store_month)) =
     [limit_rent] \<and>
   requests (snd (removeLimit requestAccepted serverRent ''l1'' store_month)) =
     requests store_month @ [RemoveLimit ''l1'', GetLimits (currentFilter store_month)] \<and>
   fst (removeLimit requestAccepted serverRent ''l1'' store_month) = Inr () \<and>
   ''l1'' \<notin> limit_id ` set (limits (snd (removeLimit requestAccepted serverRent ''l1'' store_month)))"
proof -
  have accepted: "requestAccepted create_rent = Inr ()" "updateAccepted ''l1'' update_food = Inr ()"
    "requestAccepted ''l1'' = Inr ()"
    by (simp_all add: requestAccepted_def updateAccepted_def)
  have listed: "serverRent (currentFilter store_month) = Inr [limit_rent]"
    by (simp add: serverRent_def)
  have other: "''l1'' \<notin> limit_id ` set [limit_rent]"
    by (simp add: limit_rent_def)
  note m = mutation_refetches [where addReq = requestAccepted and d = create_rent
      and fetchLimits = serverRent and s = store_month and ls = "[limit_rent]"
      and updReq = updateAccepted and i = "''l1''" and u = update_food
      and remReq = requestAccepted]
  have added: "addLimit requestAccepted serverRent create_rent store_month =
      (Inr (), store_month\<lparr>limits := [limit_rent], loading := False,
         requests := requests store_month @
           [AddLimit create_rent, GetLimits (currentFilter store_month)]\<rparr>)"
    using m accepted(1) listed by blast
  have updated: "updateLimit updateAccepted serverRent ''l1'' update_food store_month =
      (Inr (), store_month\<lparr>limits := [limit_rent], loading := False,
         requests := requests store_month @
           [UpdateLimit ''l1'' update_food, GetLimits (currentFilter store_month)]\<rparr>)"
    using m accepted(2) listed by blast
  have removed: "removeLimit requestAccepted serverRent ''l1'' store_month =
      (Inr (), store_month\<lparr>limits := [limit_rent], loading := False,
         requests := requests store_month @
           [RemoveLimit ''l1'', GetLimits (currentFilter store_month)]\<rparr>)"
    using m accepted(3) listed by blast
  have absent: "''l1'' \<notin> limit_id `
      set (limits (snd (removeLimit requestAccepted serverRent ''l1'' store_month)))"
    using m accepted(3) listed other by blast
  from accepted listed other absent show ?thesis
    by (simp add: added updated removed)
qed

section \<open>Selection and bulk delete\<close>

lemma page_selected_eq:
  "page_selected = \<lparr>selectionMode = True, selectedIds = [''t1'', ''t2''], hideBottomBar = True,
     transactions = [tx1, tx2], toasts = [], storeCalls = [ResetFilters]\<rparr>"
  by (simp add: page_selected_def page_listed_def handleResetFilters_def initialPage_def
      toggleSelectionMode_def handleSelect_def tx1_def tx2_def)

text \<open>A bulk delete whose request fails: selection mode stays active, both identifiers
  stay selected, and no refresh is called.\<close>

theorem handleMassDelete_failure_example:
  "removeRejected (selectedIds page_selected) = Inl (Error ''500'') \<and>
   handleMassDelete removeRejected (Inr []) page_selected =
     page_selected\<lparr>toasts := [ToastError (''common.error'', None)
                                (''transactions.deleteError'', None)],
        storeCalls := [ResetFilters, RemoveTransactions [''t1'', ''t2'']]\<rparr> \<and>
   selectionMode (handleMassDelete removeRejected (Inr []) page_selected) \<and>
   selectedIds (handleMassDelete removeRejected (Inr []) page_selected) = [''t1'', ''t2''] \<and>
   RefreshTransactions \<notin> set (storeCalls (handleMassDelete removeRejected (Inr []) page_selected))"
  by (simp add: page_selected_eq handleMassDelete_def removeRejected_def)

text \<open>
  C6, as amended. With a selection that is not empty, a bulk delete whose request
  succeeds leaves selection mode, empties the selection and then calls the refresh of the
  transactions store. When the request fails, selection mode and the selection stay as
  they were, the refresh is not called and an error toast is shown. With an empty
  selection nothing happens.
\<close>

theorem handleMassDelete_paths:
  "(selectedIds s = [] \<longrightarrow> handleMassDelete rm refreshed s = s) \<and>
   (selectedIds s \<noteq> [] \<and> rm (selectedIds s) = Inr () \<longrightarrow>
      \<not> selectionMode (handleMassDelete rm refreshed s) \<and>
      selectedIds (handleMassDelete rm refreshed s) = [] \<and>
      storeCalls (handleMassDelete rm refreshed s) =
        storeCalls s @ [RemoveTransactions (selectedIds s), RefreshTransactions]) \<and>
   (selectedIds s \<noteq> [] \<and> rm (selectedIds s) = Inl e \<longrightarrow>
      selectionMode (handleMassDelete rm refreshed s) = selectionMode s \<and>
      selectedIds (handleMassDelete rm refreshed s) = selectedIds s \<and>
      storeCalls (handleMassDelete rm refreshed s) =
        storeCalls s @ [RemoveTransactions (selectedIds s)] \<and>
      toasts (handleMassDelete rm refreshed s) =
        toasts s @ [ToastError (''common.error'', None) (''transactions.deleteError'', None)])"
  by (auto simp add: handleMassDelete_def exitSelectionMode_def Let_def split: sum.splits)

theorem handleMassDelete_paths_witness:
  "selectedIds initialPage = [] \<and>
   handleMassDelete removeAccepted (Inr []) initialPage = initialPage \<and>
   selectedIds page_selected \<noteq> [] \<and> removeAccepted (selectedIds page_selected) = Inr () \<and>
   \<not> selectionMode (handleMassDelete removeAccepted (Inr []) page_selected) \<and>
   selectedIds (handleMassDelete removeAccepted (Inr []) page_selected) = [] \<and>
   storeCalls (handleMassDelete removeAccepted (Inr []) page_selected) =
     [ResetFilters, RemoveTransactions [''t1'', ''t2''], RefreshTransactions] \<and>
   removeRejected (selectedIds page_selected) = Inl (Error ''500'') \<and>
   selectionMode (handleMassDelete removeRejected (Inr []) page_selected) \<and>
   storeCalls (handleMassDelete removeRejected (Inr []) page_selected) =
     [ResetFilters, RemoveTransactions [''t1'', ''t2'']] \<and>
   toasts (handleMassDelete removeRejected (Inr []) page_selected) =
     [ToastError (''common.error'', None) (''transactions.deleteError'', None)]"
  using handleMassDelete_paths [where s = initialPage and rm = removeAccepted and refreshed = "Inr []"]
    handleMassDelete_paths [where s = page_selected and rm = removeAccepted and refreshed = "Inr []"]
    handleMassDelete_paths [where s = page_selected and rm = removeRejected and refreshed = "Inr []"
      and e = "Error ''500''"]
  by (simp add: page_selected_eq initialPage_def removeAccepted_def removeRejected_def)

text \<open>Selection mode is entered, the first transaction is selected, and the income
  filter is applied: the page now lists the second transaction only, and the first is
  still selected.\<close>

theorem handleApplyFilters_stale_selection:
  "selectionMode page_filtered \<and> selectedIds page_filtered = [''t1''] \<and>
   transactions page_filtered = [tx2] \<and>
   \<not> set (selectedIds page_filtered) \<subseteq> tx_id ` set (transactions page_filtered)"
  by (simp add: page_filtered_def page_listed_def handleApplyFilters_def applyIncome_def
      handleResetFilters_def initialPage_def toggleSelectionMode_def handleSelect_def
      tx1_def tx2_def)

text \<open>
  C7, as amended. Applying or resetting the filters changes neither selection mode nor
  the selection. While the list does not change, selecting or deselecting a listed
  transaction keeps the selection within the identifiers of the list, and leaving
  selection mode empties it.
\<close>

theorem selection_unchanged_by_filters:
  "selectionMode (snd (handleApplyFilters applyFilters filters s)) = selectionMode s \<and>
   selectedIds (snd (handleApplyFilters applyFilters filters s)) = selectedIds s \<and>
   selectionMode (snd (handleResetFilters resetFilters s)) = selectionMode s \<and>
   selectedIds (snd (handleResetFilters resetFilters s)) = selectedIds s \<and>
   (set (selectedIds s) \<subseteq> tx_id ` set (transactions s) \<and> t \<in> set (transactions s) \<longrightarrow>
      set (selectedIds (handleSelect t selected s)) \<subseteq>
        tx_id ` set (transactions (handleSelect t selected s))) \<and>
   selectedIds (exitSelectionMode s) = []"
  by (auto simp add: handleApplyFilters_def handleResetFilters_def handleSelect_def
      exitSelectionMode_def Let_def split: sum.splits)

theorem selection_unchanged_by_filters_witness:
  "set (selectedIds (toggleSelectionMode page_listed)) \<subseteq>
     tx_id ` set (transactions (toggleSelectionMode page_listed)) \<and>
   tx1 \<in> set (transactions (toggleSelectionMode page_listed)) \<and>
   set (selectedIds (handleSelect tx1 True (toggleSelectionMode page_listed))) \<subseteq>
     tx_id ` set (transactions (handleSelect tx1 True (toggleSelectionMode page_listed))) \<and>
   selectedIds page_filtered = selectedIds (handleSelect tx1 True (toggleSelectionMode page_listed))"
  using selection_unchanged_by_filters [where s = "toggleSelectionMode page_listed" and t = tx1
      and selected = True]
    selection_unchanged_by_filters
      [where s = "handleSelect tx1 True (toggleSelectionMode page_listed)"
       and applyFilters = applyIncome and filters = filter_income]
  by (simp add: page_filtered_def page_listed_def handleResetFilters_def initialPage_def
      toggleSelectionMode_def)

section \<open>The update payload of a transaction\<close>

lemma trim_Nil: "trim [] = []"
  by (simp add: trim_def)

lemma trim_empty_iff: "trim s = [] \<longleftrightarrow> (\<forall>c \<in> set s. isWhiteSpace c)"
proof (cases "dropWhile isWhiteSpace s = []")
  case True
  then show ?thesis by (auto simp add: trim_def dest: set_dropWhileD)
next
  case False
  define d where "d = dropWhile isWhiteSpace s"
  have nw: "\<not> isWhiteSpace (hd d)"
    unfolding d_def using False by (rule hd_dropWhile)
  have mem: "hd d \<in> set d"
    using False by (simp add: d_def)
  have "trim s \<noteq> []"
  proof
    assume "trim s = []"
    then have "\<forall>x \<in> set (rev d). isWhiteSpace x"
      by (simp add: trim_def d_def)
    with mem nw show False by simp
  qed
  moreover have "hd d \<in> set s"
    using mem unfolding d_def by (rule set_dropWhileD)
  ultimately show ?thesis
    using nw by blast
qed

text \<open>
  C10. The update payload has a \<^verbatim>\<open>category_id\<close> exactly when the form has one with a
  code unit that is not white space, that is, one that is not empty after trimming; it is
  then the value of the form as it was entered. When the form has none, or an empty one,
  or one of white space only, the payload has no such property.
\<close>

theorem category_id_in_update:
  "upd_category_id (convertFormDataToUpdateData_tx toString formData) =
     (case form_category_id formData of
        None \<Rightarrow> None
      | Some c \<Rightarrow> if (\<forall>u \<in> set c. isWhiteSpace u) then None else Some c)"
proof (cases "form_category_id formData")
  case None
  then show ?thesis
    by (simp add: convertFormDataToUpdateData_tx_def Let_def)
next
  case (Some c)
  have "(c \<noteq> [] \<and> trim c \<noteq> []) \<longleftrightarrow> \<not> (\<forall>u \<in> set c. isWhiteSpace u)"
    using trim_empty_iff [of c] by auto
  with Some show ?thesis
    by (simp add: convertFormDataToUpdateData_tx_def Let_def)
qed

theorem category_id_in_update_witness:
  "form_category_id form_blank = Some [0x20, 0x2003, 0x9] \<and>
   isWhiteSpace 0x20 \<and> isWhiteSpace 0x2003 \<and> isWhiteSpace 0x9 \<and>
   upd_category_id (convertFormDataToUpdateData_tx NumberToString form_blank) = None \<and>
   form_category_id form_food = Some [102, 111, 111, 100] \<and>
   \<not> isWhiteSpace 102 \<and>
   upd_category_id (convertFormDataToUpdateData_tx NumberToString form_food) =
     Some [102, 111, 111, 100] \<and>
   upd_category_id (convertFormDataToUpdateData_tx NumberToString form_uncategorised) = None"
  using category_id_in_update [of NumberToString form_blank]
    category_id_in_update [of NumberToString form_food]
    category_id_in_update [of NumberToString form_uncategorised]
  by (simp add: form_blank_def form_food_def form_uncategorised_def isWhiteSpace_def)

section \<open>Serialised filters\<close>

text \<open>
  The serialisation can be read back: the text of a character, of a quoted string, of a
  number, of a value and of a property each determine what was written and where it
  ends. So two objects have the same text exactly when they have the same defined
  properties in the same order.
\<close>

lemma hex_digit_inj: "a < 16 \<Longrightarrow> b < 16 \<Longrightarrow> hex_digit a = hex_digit b \<Longrightarrow> a = b"
  by (auto simp add: hex_digit_def split: if_splits)

lemma of_char_div_mod_eq:
  assumes "(of_char c :: nat) div 16 = of_char d div 16" and "(of_char c :: nat) mod 16 = of_char d mod 16"
  shows "c = d"
proof -
  have "(of_char c :: nat) = of_char d"
    using assms by (metis div_mult_mod_eq)
  then show ?thesis by simp
qed

lemma QuoteJSONChar_prefix:
  assumes "QuoteJSONChar c @ x = QuoteJSONChar d @ y"
  shows "c = d \<and> x = y"
proof -
  have lt: "(of_char c :: nat) div 16 < 16" "(of_char d :: nat) div 16 < 16"
    by (simp_all add: less_mult_imp_div_less)
  show ?thesis
    using assms
    by (auto simp add: QuoteJSONChar_def split: if_splits
        dest!: hex_digit_inj [rotated 2] intro: of_char_div_mod_eq)
qed


lemma QuoteJSONChar_head: "\<exists>h t. QuoteJSONChar c = h # t \<and> h \<noteq> CHR 0x22"
  by (simp add: QuoteJSONChar_def)

lemma quoted_body_prefix:
  "concat (map QuoteJSONChar a) @ CHR 0x22 # x = concat (map QuoteJSONChar b) @ CHR 0x22 # y
   \<Longrightarrow> a = b \<and> x = y"
proof (induction a arbitrary: b)
  case Nil
  show ?case
  proof (cases b)
    case Nil
    with Nil.prems show ?thesis by simp
  next
    case (Cons d b')
    obtain h t where "QuoteJSONChar d = h # t" "h \<noteq> CHR 0x22"
      using QuoteJSONChar_head by blast
    with Nil.prems Cons show ?thesis by simp
  qed
next
  case (Cons c a')
  show ?case
  proof (cases b)
    case Nil
    obtain h t where "QuoteJSONChar c = h # t" "h \<noteq> CHR 0x22"
      using QuoteJSONChar_head by blast
    with Cons.prems Nil show ?thesis by simp
  next
    case (Cons d b')
    with Cons.prems have
      "QuoteJSONChar c @ (concat (map QuoteJSONChar a') @ CHR 0x22 # x) =
       QuoteJSONChar d @ (concat (map QuoteJSONChar b') @ CHR 0x22 # y)"
      by simp
    then have "c = d" and
      "concat (map QuoteJSONChar a') @ CHR 0x22 # x = concat (map QuoteJSONChar b') @ CHR 0x22 # y"
      using QuoteJSONChar_prefix by blast+
    with Cons.IH Cons show ?thesis by blast
  qed
qed

lemma QuoteJSONString_prefix:
  "QuoteJSONString a @ x = QuoteJSONString b @ y \<Longrightarrow> a = b \<and> x = y"
  using quoted_body_prefix [of a x b y] by (simp add: QuoteJSONString_def)

lemma is_digit_digit_char: "d < 10 \<Longrightarrow> is_digit (digit_char d)"
  by (simp add: is_digit_def digit_char_def)

lemma decimal_digits: "\<forall>c \<in> set (decimal n). is_digit c"
proof (induction n rule: decimal.induct)
  case (1 n)
  show ?case
  proof (cases "n < 10")
    case True
    then show ?thesis by (subst decimal.simps) (simp add: is_digit_digit_char)
  next
    case False
    with 1 show ?thesis by (subst decimal.simps) (simp add: is_digit_digit_char)
  qed
qed

lemma decimal_not_Nil: "decimal n \<noteq> []"
  by (subst decimal.simps) simp

lemma digits_value_snoc: "digits_value (ds @ [c]) = 10 * digits_value ds + (of_char c - 48)"
  by (simp add: digits_value_def)

lemma digits_value_digit_char: "d < 10 \<Longrightarrow> digits_value [digit_char d] = d"
  by (simp add: digits_value_def digit_char_def)

lemma digits_value_decimal: "digits_value (decimal n) = n"
proof (induction n rule: decimal.induct)
  case (1 n)
  show ?case
  proof (cases "n < 10")
    case True
    then show ?thesis by (subst decimal.simps) (simp add: digits_value_digit_char)
  next
    case False
    then have "digits_value (decimal n) =
        10 * digits_value (decimal (n div 10)) + (of_char (digit_char (n mod 10)) - 48)"
      by (subst decimal.simps) (simp add: digits_value_snoc)
    also have "\<dots> = 10 * (n div 10) + n mod 10"
      using 1 False by (simp add: digit_char_def)
    finally show ?thesis by simp
  qed
qed

lemma decimal_inj: "decimal a = decimal b \<Longrightarrow> a = b"
  by (metis digits_value_decimal)

lemma digits_prefix:
  assumes u: "\<forall>c \<in> set u. is_digit c" and v: "\<forall>c \<in> set v. is_digit c"
    and x: "closes x" and y: "closes y" and eq: "u @ x = v @ y"
  shows "u = v \<and> x = y"
proof -
  have stop: "closes z \<Longrightarrow> \<forall>c \<in> set w. is_digit c \<Longrightarrow> takeWhile is_digit (w @ z) = w" for w z
    by (cases z) (auto simp add: closes_def is_digit_def takeWhile_tail)
  have "u = takeWhile is_digit (u @ x)" using stop [OF x u] by simp
  also have "\<dots> = takeWhile is_digit (v @ y)" using eq by simp
  also have "\<dots> = v" using stop [OF y v] by simp
  finally have "u = v" .
  with eq show ?thesis by simp
qed

lemma NumberToString_prefix:
  assumes x: "closes x" and y: "closes y" and eq: "NumberToString i @ x = NumberToString j @ y"
  shows "i = j \<and> x = y"
proof -
  have first: "\<exists>h t. decimal n = h # t \<and> is_digit h" for n
    using decimal_digits [of n] decimal_not_Nil [of n] by (cases "decimal n") auto
  have minus: "\<not> is_digit CHR ''-''"
    by (simp add: is_digit_def)
  show ?thesis
  proof (cases "i < 0"; cases "j < 0")
    assume neg: "i < 0" "j < 0"
    with eq have "decimal (nat (- i)) @ x = decimal (nat (- j)) @ y"
      by (simp add: NumberToString_def)
    then have "decimal (nat (- i)) = decimal (nat (- j)) \<and> x = y"
      using digits_prefix decimal_digits x y by blast
    with neg show ?thesis using decimal_inj by fastforce
  next
    assume pos: "\<not> i < 0" "\<not> j < 0"
    with eq have "decimal (nat i) @ x = decimal (nat j) @ y"
      by (simp add: NumberToString_def)
    then have "decimal (nat i) = decimal (nat j) \<and> x = y"
      using digits_prefix decimal_digits x y by blast
    with pos show ?thesis using decimal_inj by fastforce
  next
    assume "i < 0" "\<not> j < 0"
    with eq first [of "nat j"] minus show ?thesis
      by (auto simp add: NumberToString_def)
  next
    assume "\<not> i < 0" "j < 0"
    with eq first [of "nat i"] minus show ?thesis
      by (auto simp add: NumberToString_def)
  qed
qed

lemma NumberToString_head: "\<exists>h t. NumberToString i = h # t \<and> (h = CHR ''-'' \<or> is_digit h)"
  using decimal_digits [of "nat i"] decimal_not_Nil [of "nat i"]
  by (cases "decimal (nat i)") (auto simp add: NumberToString_def)

lemma SerializeJSONPrim_prefix:
  assumes x: "closes x" and y: "closes y"
    and eq: "SerializeJSONPrim v @ x = SerializeJSONPrim w @ y"
  shows "v = w \<and> x = y"
proof -
  have num: "\<exists>h t. NumberToString i = h # t \<and> h \<noteq> CHR ''n'' \<and> h \<noteq> CHR ''t'' \<and>
      h \<noteq> CHR ''f'' \<and> h \<noteq> CHR 0x22" for i
    using NumberToString_head [of i] by (auto simp add: is_digit_def)
  show ?thesis
  proof (cases v)
    case JNull
    show ?thesis
    proof (cases w)
      case JNull
      with \<open>v = JNull\<close> eq show ?thesis by simp
    next
      case (JBool b)
      with \<open>v = JNull\<close> eq show ?thesis by (simp split: if_splits)
    next
      case (JNum j)
      with \<open>v = JNull\<close> eq num [of j] show ?thesis by auto
    next
      case (JStr t)
      with \<open>v = JNull\<close> eq show ?thesis by (simp add: QuoteJSONString_def)
    qed
  next
    case (JBool a)
    show ?thesis
    proof (cases w)
      case JNull
      with \<open>v = JBool a\<close> eq show ?thesis by (simp split: if_splits)
    next
      case (JBool b)
      with \<open>v = JBool a\<close> eq show ?thesis by (simp split: if_splits)
    next
      case (JNum j)
      with \<open>v = JBool a\<close> eq num [of j] show ?thesis by (auto split: if_splits)
    next
      case (JStr t)
      with \<open>v = JBool a\<close> eq show ?thesis by (simp add: QuoteJSONString_def split: if_splits)
    qed
  next
    case (JNum i)
    show ?thesis
    proof (cases w)
      case (JNum j)
      with \<open>v = JNum i\<close> eq have "NumberToString i @ x = NumberToString j @ y" by simp
      then have "i = j \<and> x = y" by (rule NumberToString_prefix [OF x y])
      with JNum \<open>v = JNum i\<close> show ?thesis by simp
    next
      case JNull
      with \<open>v = JNum i\<close> eq num [of i] show ?thesis by auto
    next
      case (JBool b)
      with \<open>v = JNum i\<close> eq num [of i] show ?thesis by (auto split: if_splits)
    next
      case (JStr t)
      with \<open>v = JNum i\<close> eq num [of i] show ?thesis by (auto simp add: QuoteJSONString_def)
    qed
  next
    case (JStr s)
    show ?thesis
    proof (cases w)
      case (JStr t)
      with \<open>v = JStr s\<close> eq have "QuoteJSONString s @ x = QuoteJSONString t @ y" by simp
      then have "s = t \<and> x = y" by (rule QuoteJSONString_prefix)
      with JStr \<open>v = JStr s\<close> show ?thesis by simp
    next
      case JNull
      with \<open>v = JStr s\<close> eq show ?thesis by (simp add: QuoteJSONString_def)
    next
      case (JBool b)
      with \<open>v = JStr s\<close> eq show ?thesis by (simp add: QuoteJSONString_def split: if_splits)
    next
      case (JNum j)
      with \<open>v = JStr s\<close> eq num [of j] show ?thesis by (auto simp add: QuoteJSONString_def)
    qed
  qed
qed

lemma property_text_prefix:
  assumes x: "closes x" and y: "closes y" and eq: "property_text p @ x = property_text q @ y"
  shows "p = q \<and> x = y"
proof -
  from eq have "QuoteJSONString (fst p) @ ('':'' @ SerializeJSONPrim (snd p) @ x) =
      QuoteJSONString (fst q) @ ('':'' @ SerializeJSONPrim (snd q) @ y)"
    by (simp add: property_text_def)
  then have "fst p = fst q \<and>
      '':'' @ SerializeJSONPrim (snd p) @ x = '':'' @ SerializeJSONPrim (snd q) @ y"
    by (rule QuoteJSONString_prefix)
  then have k: "fst p = fst q"
    and v: "SerializeJSONPrim (snd p) @ x = SerializeJSONPrim (snd q) @ y"
    by simp_all
  from v have "snd p = snd q \<and> x = y"
    by (rule SerializeJSONPrim_prefix [OF x y])
  with k show ?thesis by (simp add: prod_eq_iff)
qed

lemma SerializeJSONProperties_defined:
  "SerializeJSONProperties ps = map property_text (definedProperties ps)"
  by (induction ps rule: definedProperties.induct) (simp_all add: property_text_def)

lemma join_comma_Cons:
  "join_comma (t # ts) @ ''}'' = t @ (if ts = [] then ''}'' else '','' @ join_comma ts @ ''}'')"
  by (cases ts) simp_all

lemma closes_rest: "closes (if ts = [] then ''}'' else '','' @ r)"
  by (simp add: closes_def)

lemma property_text_head: "\<exists>t. property_text p = CHR 0x22 # t"
  by (simp add: property_text_def QuoteJSONString_def)

lemma properties_text_inj:
  "join_comma (map property_text ps) @ ''}'' = join_comma (map property_text qs) @ ''}''
   \<Longrightarrow> ps = qs"
proof (induction ps arbitrary: qs)
  case Nil
  show ?case
  proof (cases qs)
    case Nil
    then show ?thesis by simp
  next
    case (Cons q qs')
    obtain t where "property_text q = CHR 0x22 # t"
      using property_text_head by blast
    with Nil.prems Cons show ?thesis
      by (simp add: join_comma_Cons)
  qed
next
  case (Cons p ps')
  show ?case
  proof (cases qs)
    case Nil
    obtain t where "property_text p = CHR 0x22 # t"
      using property_text_head by blast
    with Cons.prems Nil show ?thesis
      by (simp add: join_comma_Cons)
  next
    case (Cons q qs')
    let ?rp = "if map property_text ps' = [] then ''}''
               else '','' @ join_comma (map property_text ps') @ ''}''"
    let ?rq = "if map property_text qs' = [] then ''}''
               else '','' @ join_comma (map property_text qs') @ ''}''"
    from Cons.prems Cons have "property_text p @ ?rp = property_text q @ ?rq"
      by (simp only: list.map join_comma_Cons)
    then have pq: "p = q" and rest: "?rp = ?rq"
      using property_text_prefix [OF closes_rest closes_rest] by blast+
    from rest have "join_comma (map property_text ps') @ ''}'' =
        join_comma (map property_text qs') @ ''}''"
      by (cases ps'; cases qs') (simp_all split: if_splits)
    with Cons.IH pq Cons show ?thesis by blast
  qed
qed

lemma SerializeJSONObject_inj:
  "SerializeJSONObject a = SerializeJSONObject b \<longleftrightarrow> definedProperties a = definedProperties b"
  using properties_text_inj [of "definedProperties a" "definedProperties b"]
  by (auto simp add: SerializeJSONObject_def SerializeJSONProperties_defined)

lemma filterChanged_iff:
  "filterChanged a b \<longleftrightarrow> map_option definedProperties a \<noteq> map_option definedProperties b"
  by (cases a; cases b) (simp_all add: filterChanged_def SerializeJSONObject_inj)

text \<open>Two filters that are structurally equal and differ in the order of their fields:
  the store takes the filter for changed.\<close>

theorem filterChanged_field_order:
  "distinct (map fst filter_month_food) \<and> distinct (map fst filter_food_month) \<and>
   structurally_equal_spec (Some filter_month_food) (Some filter_food_month) \<and>
   filterChanged (Some filter_month_food) (Some filter_food_month)"
  by (auto simp add: filterChanged_iff structurally_equal_spec_def filter_month_food_def
      filter_food_month_def)

text \<open>
  C2, as amended. The store takes two filters for equal exactly when their
  serialisations are the same: both are missing, or both have the same defined fields
  with the same values in the same order, a field without a value counting as absent.
  For a loaded, idle store, a call without \<open>force\<close> sends a request exactly when the
  filters differ in this sense. Filters that are structurally different are always taken
  for changed.
\<close>

theorem filter_gate_compares_serialisations:
  "(\<not> filterChanged a b \<longleftrightarrow> map_option definedProperties a = map_option definedProperties b) \<and>
   (isLoaded s \<and> \<not> loading s \<longrightarrow>
      fst (loadLimits_begin b False s) =
        (map_option definedProperties (currentFilter s) \<noteq> map_option definedProperties b)) \<and>
   (\<not> structurally_equal_spec a b \<longrightarrow> filterChanged a b)"
proof -
  have "\<not> structurally_equal_spec a b \<longrightarrow> filterChanged a b"
    by (cases a; cases b) (auto simp add: filterChanged_iff structurally_equal_spec_def)
  then show ?thesis
    by (simp add: filterChanged_iff loadLimits_begin_def)
qed

theorem filter_gate_compares_serialisations_witness:
  "isLoaded store_month \<and> \<not> loading store_month \<and>
   fst (loadLimits_begin (Some filter_year) False store_month) \<and>
   \<not> structurally_equal_spec (Some filter_month) (Some filter_year) \<and>
   filterChanged (Some filter_month) (Some filter_year)"
  using filter_gate_compares_serialisations [of "Some filter_month" "Some filter_year" store_month]
  by (simp add: store_month_eq initialStore_def structurally_equal_spec_def filter_month_def
      filter_year_def)

section \<open>The period of a limit\<close>

text \<open>Evaluation of the date functions at the inputs used below.\<close>

lemma digit_char_eval:
  "digit_char 0 = CHR ''0''" "digit_char 1 = CHR ''1''" "digit_char 2 = CHR ''2''"
  "digit_char 3 = CHR ''3''" "digit_char 4 = CHR ''4''" "digit_char 5 = CHR ''5''"
  "digit_char 6 = CHR ''6''" "digit_char 7 = CHR ''7''" "digit_char 8 = CHR ''8''"
  "digit_char 9 = CHR ''9''" "digit_char (Suc 0) = CHR ''1''"
  by (simp_all add: digit_char_def char_of_eq_iff)

lemma decimal_small: "n < 10 \<Longrightarrow> decimal n = [digit_char n]"
  by (simp add: decimal.simps)

lemma decimal_large: "10 \<le> n \<Longrightarrow> decimal n = decimal (n div 10) @ [digit_char (n mod 10)]"
  by (subst decimal.simps) simp

lemma replicate_eval: "replicate 2 x = [x, x]" "replicate 3 x = [x, x, x]"
  by (simp_all add: numeral_2_eq_2 numeral_3_eq_3)

lemma pad_eval:
  "pad 4 2024 = ''2024''" "pad 2 5 = ''05''" "pad 2 6 = ''06''" "pad 2 1 = ''01''"
  "pad 2 29 = ''29''" "pad 2 30 = ''30''" "pad 2 31 = ''31''" "pad 2 19 = ''19''"
  "pad 2 0 = ''00''" "pad 3 0 = ''000''" "pad 2 (Suc 0) = ''01''"
  "pad 2 9 = ''09''" "pad 2 10 = ''10''" "pad 2 23 = ''23''"
  by (simp_all add: pad_def decimal_small decimal_large digit_char_eval replicate_eval)

lemma civil_from_days_eval:
  "civil_from_days 19889 = (2024, 6, 15)"
  "civil_from_days 19874 = (2024, 5, 31)"
  "civil_from_days 19903 = (2024, 6, 29)"
  "civil_from_days 19875 = (2024, 6, 1)"
  "civil_from_days 19904 = (2024, 6, 30)"
  "civil_from_days 20011 = (2024, 10, 15)"
  "civil_from_days 19996 = (2024, 9, 30)"
  "civil_from_days 20027 = (2024, 10, 31)"
  by (simp_all add: civil_from_days_def cong: let_weak_cong)

lemma days_examples:
  "days_from_civil 1970 1 1 = 0" "civil_from_days 0 = (1970, 1, 1)"
  "civil_from_days (- 1) = (1969, 12, 31)"
  "days_from_civil 2000 3 1 = 11017" "civil_from_days 11017 = (2000, 3, 1)"
  "days_from_civil 2024 2 29 = 19782" "civil_from_days 19782 = (2024, 2, 29)"
  "MakeDay 2024 12 0 = days_from_civil 2024 12 31"
  by (simp_all add: days_from_civil_def civil_from_days_def MakeDay_def cong: let_weak_cong)

lemma now_eval:
  "getFullYear (fixedOffset 300) 1718434800000 = 2024"
  "getMonth (fixedOffset 300) 1718434800000 = 5"
  "getFullYear (fixedOffset 0) 1718434800000 = 2024"
  "getMonth (fixedOffset 0) 1718434800000 = 5"
  "getFullYear londonAtUTC 1728990000000 = 2024"
  "getMonth londonAtUTC 1728990000000 = 9"
  by (simp_all add: getFullYear_def getMonth_def fixedOffset_def londonAtUTC_def msPerDay_def
      civil_from_days_eval)

lemma newDate_eval:
  "newDate (fixedOffset 300) 2024 5 1 = 1717182000000"
  "newDate (fixedOffset 300) 2024 6 0 = 1719687600000"
  "newDate (fixedOffset 0) 2024 5 1 = 1717200000000"
  "newDate (fixedOffset 0) 2024 6 0 = 1719705600000"
  "newDate londonAtLocal 2024 9 1 = 1727737200000"
  "newDate londonAtLocal 2024 10 0 = 1730332800000"
  by (simp_all add: newDate_def MakeDay_def days_from_civil_def fixedOffset_def
      londonAtLocal_def msPerDay_def cong: let_weak_cong)

lemma toISOString_eval:
  "toISOString 1717182000000 = ''2024-05-31T19:00:00.000Z''"
  "toISOString 1719687600000 = ''2024-06-29T19:00:00.000Z''"
  "toISOString 1717200000000 = ''2024-06-01T00:00:00.000Z''"
  "toISOString 1719705600000 = ''2024-06-30T00:00:00.000Z''"
  "toISOString 1727737200000 = ''2024-09-30T23:00:00.000Z''"
  "toISOString 1730332800000 = ''2024-10-31T00:00:00.000Z''"
  by (simp_all add: toISOString_def msPerDay_def civil_from_days_eval pad_eval)

lemma limit_period_in_utc:
  "convertFormDataToCreateData clock_utc form_budget ''food'' =
     \<lparr>amount = ''100000'', period_start = ''2024-06-01'', period_end = ''2024-06-30'',
      category_id = ''food''\<rparr>"
  by (simp add: convertFormDataToCreateData_def clock_utc_def form_budget_def now_eval
      newDate_eval toISOString_eval split_T_0_def)

text \<open>Where the offset changes within the month, each end of the period is moved by
  the offset of its own day: in London in October 2024 the first day is printed a day
  early and the last day is not.\<close>

lemma limit_period_in_london:
  "convertFormDataToCreateData clock_london form_budget ''food'' =
     \<lparr>amount = ''100000'', period_start = ''2024-09-30'', period_end = ''2024-10-31'',
      category_id = ''food''\<rparr>"
  by (simp add: convertFormDataToCreateData_def clock_london_def form_budget_def now_eval
      newDate_eval toISOString_eval split_T_0_def)

text \<open>
  C8. In a browser east of UTC the payload is a day early. At 12:00 on 15 June 2024 in a
  zone five hours east of UTC, a month of 30 days, the create payload and the update
  payload both carry 31 May as \<^verbatim>\<open>period_start\<close> and 29 June as \<^verbatim>\<open>period_end\<close>, and
  \<open>handleSubmit\<close> sends them: midnight local time of 1 June is 19:00 UTC of 31 May,
  and \<^verbatim>\<open>toISOString\<close> prints the UTC date.
\<close>

theorem limit_period_east_of_utc:
  "convertFormDataToCreateData clock_tashkent form_budget ''food'' =
     \<lparr>amount = ''100000'', period_start = ''2024-05-31'', period_end = ''2024-06-29'',
      category_id = ''food''\<rparr> \<and>
   convertFormDataToUpdateData clock_tashkent form_budget =
     \<lparr>amount = ''100000'', period_start = ''2024-05-31'', period_end = ''2024-06-29''\<rparr> \<and>
   requests (snd (handleSubmit clock_tashkent api_accepting form_budget ''food'' initialStore)) =
     [AddLimit \<lparr>amount = ''100000'', period_start = ''2024-05-31'', period_end = ''2024-06-29'',
        category_id = ''food''\<rparr>, GetLimits None]"
proof -
  have create: "convertFormDataToCreateData clock_tashkent form_budget ''food'' =
     \<lparr>amount = ''100000'', period_start = ''2024-05-31'', period_end = ''2024-06-29'',
      category_id = ''food''\<rparr>"
    by (simp add: convertFormDataToCreateData_def clock_tashkent_def form_budget_def now_eval
        newDate_eval toISOString_eval split_T_0_def)
  have update: "convertFormDataToUpdateData clock_tashkent form_budget =
     \<lparr>amount = ''100000'', period_start = ''2024-05-31'', period_end = ''2024-06-29''\<rparr>"
    by (simp add: convertFormDataToUpdateData_def clock_tashkent_def form_budget_def now_eval
        newDate_eval toISOString_eval split_T_0_def)
  have "requests (snd (handleSubmit clock_tashkent api_accepting form_budget ''food'' initialStore)) =
     [AddLimit (convertFormDataToCreateData clock_tashkent form_budget ''food''), GetLimits None]"
    by (simp add: handleSubmit_def addLimit_def api_accepting_def requestAccepted_def
        serverFood_def initialStore_def Let_def)
  with create update show ?thesis
    by simp
qed

end
